theory Spec2Isabelle
  imports Main "HOL-Library.Word" "HOL-Library.Char_ord" "HOL-Library.List_Lexorder"
begin

section \<open>jsondb: a key-value store kept in one JSON file\<close>

text \<open>
  The program is the Go package \<^verbatim>\<open>jsondb\<close> (file \<^verbatim>\<open>jsondb.go\<close>). A \<^verbatim>\<open>DB\<close> holds
  a map from string keys to raw JSON payloads, the absolute path of its file and the
  options given to \<^verbatim>\<open>Open\<close>. The model follows the source function by function.
  Three things lie outside the package and are made explicit:
  \<^item> the JSON codec (\<^verbatim>\<open>sonic.Marshal\<close>, \<^verbatim>\<open>sonic.Unmarshal\<close>, \<^verbatim>\<open>json.Marshal\<close>) is
    a parameter of every operation, a record of four functions;
  \<^item> the file system is a state that the operations take and return, with the outcome
    of each system call (success or failure) given by the state;
  \<^item> the mutex only serialises the calls, so a call is one step and the lock is left out.
\<close>

subsection \<open>Errors\<close>

text \<open>
  \<^verbatim>\<open>ErrNotFound\<close>, \<^verbatim>\<open>ErrJSON\<close> and \<^verbatim>\<open>ErrSync\<close> are the package's three sentinel errors.
  \<open>External\<close> is an error of the codec or of the operating system, \<open>Join\<close> is
  \<^verbatim>\<open>errors.Join\<close>, and \<open>Errorf\<close> is \<^verbatim>\<open>fmt.Errorf\<close>: its second argument is the error
  wrapped by \<^verbatim>\<open>%w\<close>, if the format has one.
\<close>

type_synonym bytes = string

datatype error =
    ErrNotFound
  | ErrJSON
  | ErrSync
  | External string
  | Join error error
  | Errorf string "error option"

text \<open>\<^verbatim>\<open>errors.Is\<close>: the error is the target, or wraps it.\<close>

fun errors_Is :: "error \<Rightarrow> error \<Rightarrow> bool" where
  "errors_Is (Join a b) t = (Join a b = t \<or> errors_Is a t \<or> errors_Is b t)"
| "errors_Is (Errorf m (Some e)) t = (Errorf m (Some e) = t \<or> errors_Is e t)"
| "errors_Is e t = (e = t)"

subsection \<open>The file system\<close>

text \<open>
  \<open>files\<close> gives the content of each file, by the name \<open>canon\<close> resolves a path to
  (the absolute path that \<^verbatim>\<open>filepath.Abs\<close> computes). The remaining fields say which
  system calls fail in this state, and with which error:
  \<open>writeFault\<close> also gives the number of bytes written before the error, and
  \<open>writeFileFault\<close> gives \<open>None\<close> when \<^verbatim>\<open>os.WriteFile\<close> fails before it truncates the
  file and \<open>Some n\<close> when it fails after truncating and writing \<open>n\<close> bytes.
  File modes are not modelled.
\<close>

record filesys =
  files :: "string \<rightharpoonup> bytes"
  canon :: "string \<Rightarrow> string"
  openFault :: "string \<Rightarrow> string option"
  absFault :: "string \<Rightarrow> string option"
  readFault :: "string \<Rightarrow> string option"
  writeFault :: "string \<Rightarrow> (string \<times> nat) option"
  writeFileFault :: "string \<Rightarrow> (string \<times> nat option) option"

text \<open>An open file: the file it names and the offset of the next read or write.\<close>

record File =
  fname :: string
  offset :: nat

definition contents :: "filesys \<Rightarrow> string \<Rightarrow> bytes" where
  "contents fs name = (case files fs name of None \<Rightarrow> [] | Some c \<Rightarrow> c)"

text \<open>\<^verbatim>\<open>os.OpenFile(path, os.O_RDWR|os.O_CREATE, 0o755)\<close>: an absent file is created empty.\<close>

definition os_OpenFile :: "filesys \<Rightarrow> string \<Rightarrow> (string + File) \<times> filesys" where
  "os_OpenFile fs name =
     (case openFault fs (canon fs name) of
        Some e \<Rightarrow> (Inl e, fs)
      | None \<Rightarrow>
          (Inr \<lparr>fname = canon fs name, offset = 0\<rparr>,
           fs\<lparr>files := (files fs)(canon fs name \<mapsto> contents fs (canon fs name))\<rparr>))"

text \<open>\<^verbatim>\<open>filepath.Abs(path)\<close>.\<close>

definition filepath_Abs :: "filesys \<Rightarrow> string \<Rightarrow> string + string" where
  "filepath_Abs fs name =
     (case absFault fs name of Some e \<Rightarrow> Inl e | None \<Rightarrow> Inr (canon fs name))"

text \<open>\<^verbatim>\<open>io.ReadAll(file)\<close>: the bytes from the offset to the end; the offset moves to the end.\<close>

definition io_ReadAll :: "filesys \<Rightarrow> File \<Rightarrow> (string + bytes) \<times> File" where
  "io_ReadAll fs f =
     (case readFault fs (fname f) of
        Some e \<Rightarrow> (Inl e, f)
      | None \<Rightarrow>
          (Inr (drop (offset f) (contents fs (fname f))),
           f\<lparr>offset := max (offset f) (length (contents fs (fname f)))\<rparr>))"

text \<open>
  \<^verbatim>\<open>file.Write(b)\<close>: the bytes are written at the offset, over what is there, and the
  file grows as needed (a gap before the offset reads as zero bytes). The file is not
  truncated.
\<close>

definition file_Write :: "filesys \<Rightarrow> File \<Rightarrow> bytes \<Rightarrow> string option \<times> File \<times> filesys" where
  "file_Write fs f b =
     (let old = contents fs (fname f);
          (err, written) =
            (case writeFault fs (fname f) of
               None \<Rightarrow> (None, b)
             | Some (e, n) \<Rightarrow> (Some e, take n b));
          new = take (offset f) old @ replicate (offset f - length old) (CHR 0x00)
                @ written @ drop (offset f + length written) old
      in (err, f\<lparr>offset := offset f + length written\<rparr>,
          fs\<lparr>files := (files fs)(fname f \<mapsto> new)\<rparr>))"

text \<open>\<^verbatim>\<open>os.WriteFile(name, data, 0o755)\<close>: the file is created or truncated, then written.\<close>

definition os_WriteFile :: "filesys \<Rightarrow> string \<Rightarrow> bytes \<Rightarrow> string option \<times> filesys" where
  "os_WriteFile fs name b =
     (case writeFileFault fs (canon fs name) of
        None \<Rightarrow> (None, fs\<lparr>files := (files fs)(canon fs name \<mapsto> b)\<rparr>)
      | Some (e, None) \<Rightarrow> (Some e, fs)
      | Some (e, Some n) \<Rightarrow> (Some e, fs\<lparr>files := (files fs)(canon fs name \<mapsto> take n b)\<rparr>))"

subsection \<open>\<^verbatim>\<open>strings.TrimSpace\<close>\<close>

text \<open>
  \<^verbatim>\<open>strings.TrimSpace\<close> removes the leading and the trailing white space of a string,
  as Unicode defines it: the six ASCII characters tab, line feed, vertical tab, form
  feed, carriage return and space, and the code points U+0085, U+00A0, U+1680,
  U+2000 to U+200A, U+2028, U+2029, U+202F, U+205F and U+3000. A Go string is a
  sequence of bytes, read as UTF-8; \<open>spaceRunes\<close> lists the UTF-8 encodings of the
  white space code points. Each encoding starts with a byte that is not a continuation
  byte, so reading runes from the end removes a trailing encoding exactly when the
  bytes of the string end with it.
\<close>

definition spaceRunes :: "string list" where
  "spaceRunes =
     [[CHR 0x09], [CHR 0x0A], [CHR 0x0B], [CHR 0x0C], [CHR 0x0D], [CHR 0x20],
      [CHR 0xC2, CHR 0x85], [CHR 0xC2, CHR 0xA0],
      [CHR 0xE1, CHR 0x9A, CHR 0x80],
      [CHR 0xE2, CHR 0x80, CHR 0x80], [CHR 0xE2, CHR 0x80, CHR 0x81],
      [CHR 0xE2, CHR 0x80, CHR 0x82], [CHR 0xE2, CHR 0x80, CHR 0x83],
      [CHR 0xE2, CHR 0x80, CHR 0x84], [CHR 0xE2, CHR 0x80, CHR 0x85],
      [CHR 0xE2, CHR 0x80, CHR 0x86], [CHR 0xE2, CHR 0x80, CHR 0x87],
      [CHR 0xE2, CHR 0x80, CHR 0x88], [CHR 0xE2, CHR 0x80, CHR 0x89],
      [CHR 0xE2, CHR 0x80, CHR 0x8A],
      [CHR 0xE2, CHR 0x80, CHR 0xA8], [CHR 0xE2, CHR 0x80, CHR 0xA9],
      [CHR 0xE2, CHR 0x80, CHR 0xAF],
      [CHR 0xE2, CHR 0x81, CHR 0x9F],
      [CHR 0xE3, CHR 0x80, CHR 0x80]]"

text \<open>The length of the white space rune that \<open>s\<close> starts with; 0 when it starts with none.\<close>

definition spaceLen :: "string list \<Rightarrow> string \<Rightarrow> nat" where
  "spaceLen runes s =
     (case filter (\<lambda>r. take (length r) s = r) runes of [] \<Rightarrow> 0 | r # _ \<Rightarrow> length r)"

function trimLeft :: "string list \<Rightarrow> string \<Rightarrow> string" where
  "trimLeft runes s =
     (if spaceLen runes s = 0 \<or> s = [] then s else trimLeft runes (drop (spaceLen runes s) s))"
  by pat_completeness auto
termination
  by (relation "measure (\<lambda>(runes, s). length s)") auto

declare trimLeft.simps [simp del]

definition TrimSpace :: "string \<Rightarrow> string" where
  "TrimSpace s = rev (trimLeft (map rev spaceRunes) (rev (trimLeft spaceRunes s)))"

subsection \<open>Go values: slices, maps, panics\<close>

text \<open>
  A \<^verbatim>\<open>json.RawMessage\<close> is a byte slice, and a slice may be nil: \<^verbatim>\<open>json.Marshal\<close>
  writes a nil \<^verbatim>\<open>RawMessage\<close> as \<^verbatim>\<open>null\<close> and refuses an empty one. A map may be
  nil as well: a nil map reads as an empty map, \<^verbatim>\<open>delete\<close> leaves it as it is, and an
  assignment to one of its entries panics. \<open>entries\<close> is what a map holds;
  \<open>mapDelete\<close> is \<^verbatim>\<open>delete(m, k)\<close>; \<open>mapAssign\<close> is \<^verbatim>\<open>m[k] = v\<close>, with \<open>None\<close> for the
  panic. A call that can panic returns an \<open>outcome\<close>.
\<close>

datatype RawMessage = NilRaw | Raw bytes

datatype gomap = NilMap | GoMap "string \<rightharpoonup> RawMessage"

fun entries :: "gomap \<Rightarrow> (string \<rightharpoonup> RawMessage)" where
  "entries NilMap = Map.empty"
| "entries (GoMap m) = m"

fun mapDelete :: "gomap \<Rightarrow> string \<Rightarrow> gomap" where
  "mapDelete NilMap k = NilMap"
| "mapDelete (GoMap m) k = GoMap (m(k := None))"

fun mapAssign :: "gomap \<Rightarrow> string \<Rightarrow> RawMessage \<Rightarrow> gomap option" where
  "mapAssign NilMap k v = None"
| "mapAssign (GoMap m) k v = Some (GoMap (m(k \<mapsto> v)))"

datatype 'a outcome = Panic string | Return 'a

subsection \<open>The codec\<close>

text \<open>
  The four uses the package makes of its JSON libraries:
  \<^item> \<open>marshal\<close> is \<^verbatim>\<open>sonic.Marshal(val)\<close> in \<^verbatim>\<open>Set\<close>;
  \<^item> \<open>unmarshal\<close> is \<^verbatim>\<open>sonic.Unmarshal(raw, val)\<close> in \<^verbatim>\<open>Get\<close>: it takes the payload and
    the destination and returns the error, if any, and the destination afterwards;
  \<^item> \<open>marshalMap\<close> is \<^verbatim>\<open>json.Marshal(db.data)\<close> in \<^verbatim>\<open>sync\<close>;
  \<^item> \<open>unmarshalMap\<close> is \<^verbatim>\<open>sonic.Unmarshal(content, &data)\<close> in \<^verbatim>\<open>Open\<close>, where
    \<^verbatim>\<open>data\<close> is a new empty map; the result is the map afterwards, which is nil when
    the document is \<^verbatim>\<open>null\<close>.
  \<open>'v\<close> is the type of the values given to \<^verbatim>\<open>Set\<close> and read by \<^verbatim>\<open>Get\<close>.
\<close>

record 'v codec =
  marshal :: "'v \<Rightarrow> string + RawMessage"
  unmarshal :: "RawMessage \<Rightarrow> 'v \<Rightarrow> string option \<times> 'v"
  marshalMap :: "gomap \<Rightarrow> string + bytes"
  unmarshalMap :: "bytes \<Rightarrow> string + gomap"

subsection \<open>The store\<close>

type_synonym Option = "64 word"

definition OptSync :: Option where
  "OptSync = 0"

record DB =
  opts :: "Option list"
  path :: string
  data :: gomap

text \<open>
  \<^verbatim>\<open>Open\<close> returns the store or an error, and the file system as the call leaves it.
  \<^verbatim>\<open>defer file.Close()\<close> has no effect on the content of the file.
\<close>

definition Open ::
  "'v codec \<Rightarrow> filesys \<Rightarrow> string \<Rightarrow> Option list \<Rightarrow> (error + DB) \<times> filesys" where
  "Open c fs name os =
     (case os_OpenFile fs name of
        (Inl e, fs1) \<Rightarrow>
          (Inl (Errorf ''failed to open/create db file: %w'' (Some (External e))), fs1)
      | (Inr file, fs1) \<Rightarrow>
          (case filepath_Abs fs1 name of
             Inl e \<Rightarrow>
               (Inl (Errorf ''failed to get absolute file path: %w'' (Some (External e))), fs1)
           | Inr absPath \<Rightarrow>
               (case io_ReadAll fs1 file of
                  (Inl e, file1) \<Rightarrow>
                    (Inl (Errorf ''failed to read db file: %w'' (Some (External e))), fs1)
                | (Inr content, file1) \<Rightarrow>
                    (let (werr, content1, fs2) =
                           (if TrimSpace content = []
                            then (case file_Write fs1 file1 ''{}'' of
                                    (err, file2, fs') \<Rightarrow> (err, ''{}'', fs'))
                            else (None, content, fs1))
                     in case werr of
                          Some e \<Rightarrow>
                            (Inl (Errorf ''failed write new db: %w'' (Some (External e))), fs2)
                        | None \<Rightarrow>
                            (case unmarshalMap c content1 of
                               Inl e \<Rightarrow> (Inl (Errorf ''db content is not valid JSON'' None), fs2)
                             | Inr m \<Rightarrow>
                                 (Inr \<lparr>opts = os, path = absPath, data = m\<rparr>, fs2))))))"

text \<open>\<^verbatim>\<open>sync\<close> and \<^verbatim>\<open>syncIfNeeded\<close> read the store and write the file.\<close>

definition sync :: "'v codec \<Rightarrow> DB \<Rightarrow> filesys \<Rightarrow> error option \<times> filesys" where
  "sync c db fs =
     (case marshalMap c (data db) of
        Inl e \<Rightarrow> (Some (Join ErrJSON (External e)), fs)
      | Inr content \<Rightarrow>
          (case os_WriteFile fs (path db) content of
             (Some e, fs') \<Rightarrow> (Some (Join ErrSync (External e)), fs')
           | (None, fs') \<Rightarrow> (None, fs')))"

definition syncIfNeeded :: "'v codec \<Rightarrow> DB \<Rightarrow> filesys \<Rightarrow> error option \<times> filesys" where
  "syncIfNeeded c db fs =
     (if OptSync \<in> set (opts db) then sync c db fs else (None, fs))"

text \<open>
  The methods return their result, the store after the call and the file system after
  the call. \<^verbatim>\<open>Set\<close> and \<^verbatim>\<open>SetRaw\<close> assign to an entry of the map, so on a nil map
  they panic, with the store and the file system as they were; \<^verbatim>\<open>Set\<close> encodes the
  value first.
\<close>

definition Save :: "'v codec \<Rightarrow> DB \<Rightarrow> filesys \<Rightarrow> error option \<times> DB \<times> filesys" where
  "Save c db fs = (case sync c db fs of (err, fs') \<Rightarrow> (err, db, fs'))"

definition Set ::
  "'v codec \<Rightarrow> DB \<Rightarrow> filesys \<Rightarrow> string \<Rightarrow> 'v \<Rightarrow> error option outcome \<times> DB \<times> filesys" where
  "Set c db fs key val =
     (case marshal c val of
        Inl e \<Rightarrow> (Return (Some (Join ErrJSON (External e))), db, fs)
      | Inr raw \<Rightarrow>
          (case mapAssign (data db) key raw of
             None \<Rightarrow> (Panic ''assignment to entry in nil map'', db, fs)
           | Some m \<Rightarrow>
               (let db' = db\<lparr>data := m\<rparr>
                in case syncIfNeeded c db' fs of (err, fs') \<Rightarrow> (Return err, db', fs'))))"

definition SetRaw ::
  "'v codec \<Rightarrow> DB \<Rightarrow> filesys \<Rightarrow> string \<Rightarrow> RawMessage \<Rightarrow> error option outcome \<times> DB \<times> filesys" where
  "SetRaw c db fs key val =
     (case mapAssign (data db) key val of
        None \<Rightarrow> (Panic ''assignment to entry in nil map'', db, fs)
      | Some m \<Rightarrow>
          (let db' = db\<lparr>data := m\<rparr>
           in case syncIfNeeded c db' fs of (err, fs') \<Rightarrow> (Return err, db', fs')))"

text \<open>\<^verbatim>\<open>Get\<close> takes the destination and returns it as the call leaves it.\<close>

definition Get :: "'v codec \<Rightarrow> DB \<Rightarrow> string \<Rightarrow> 'v \<Rightarrow> error option \<times> 'v \<times> DB" where
  "Get c db key val =
     (case entries (data db) key of
        None \<Rightarrow> (Some ErrNotFound, val, db)
      | Some raw \<Rightarrow>
          (case unmarshal c raw val of
             (Some e, val') \<Rightarrow> (Some (Join ErrJSON (External e)), val', db)
           | (None, val') \<Rightarrow> (None, val', db)))"

definition GetRaw :: "DB \<Rightarrow> string \<Rightarrow> (error + RawMessage) \<times> DB" where
  "GetRaw db key =
     (case entries (data db) key of
        None \<Rightarrow> (Inl ErrNotFound, db)
      | Some raw \<Rightarrow> (Inr raw, db))"

definition Delete :: "'v codec \<Rightarrow> DB \<Rightarrow> filesys \<Rightarrow> string \<Rightarrow> error option \<times> DB \<times> filesys" where
  "Delete c db fs key =
     (let db' = db\<lparr>data := mapDelete (data db) key\<rparr>
      in case syncIfNeeded c db' fs of (err, fs') \<Rightarrow> (err, db', fs'))"

text \<open>
  \<^verbatim>\<open>Iter\<close>. The visitor is a function of the key, the payload and its own state; it
  returns its error, if any, and its state. Go leaves the order of \<^verbatim>\<open>range\<close> over a map
  open: \<open>order\<close> is the order of one run, a listing of the entries of the map
  (\<open>rangeOrder\<close>; a nil map has none). \<open>iterLoop\<close> is the loop, \<^verbatim>\<open>break\<close> included.
  The visitor is given the payload by value: a visitor that writes into the slice it
  receives, or that calls the store, is outside this model.
\<close>

definition rangeOrder :: "gomap \<Rightarrow> (string \<times> RawMessage) list \<Rightarrow> bool" where
  "rangeOrder m order = (distinct (map fst order) \<and> map_of order = entries m)"

fun iterLoop ::
  "(string \<Rightarrow> RawMessage \<Rightarrow> 's \<Rightarrow> error option \<times> 's) \<Rightarrow> (string \<times> RawMessage) list \<Rightarrow> 's \<Rightarrow> 's" where
  "iterLoop fn [] s = s"
| "iterLoop fn ((k, v) # rest) s =
     (case fn k v s of
        (Some err, s') \<Rightarrow> s'
      | (None, s') \<Rightarrow> iterLoop fn rest s')"

definition Iter ::
  "DB \<Rightarrow> (string \<times> RawMessage) list \<Rightarrow> (string \<Rightarrow> RawMessage \<Rightarrow> 's \<Rightarrow> error option \<times> 's) \<Rightarrow> 's
   \<Rightarrow> 's \<times> DB" where
  "Iter db order fn s = (iterLoop fn order s, db)"

subsection \<open>A concrete codec\<close>

text \<open>
  \<open>jsonLite\<close> is a codec for a fragment of JSON, used to run the operations on
  concrete inputs. Its values are natural numbers, written in decimal. Its documents
  are \<^verbatim>\<open>null\<close>, read as the nil map, and the objects whose keys are strings (of the
  escapes, only those of the quotation mark, the backslash and the slash are read)
  and whose payloads are decimal numbers or \<^verbatim>\<open>null\<close>. White space is what JSON allows:
  space, tab, line feed and carriage return. As the Go libraries do:
  \<^item> decoding \<^verbatim>\<open>null\<close> into a number leaves the destination as it is, and decoding a
    nil payload is an error;
  \<^item> the nil map is written as \<^verbatim>\<open>null\<close>, a nil payload is written as \<^verbatim>\<open>null\<close>, the
    keys are written in sorted order, and a map that holds a payload that is not
    JSON is refused.
\<close>

definition digits :: string where
  "digits = ''0123456789''"

definition natLiteral :: "bytes \<Rightarrow> bool" where
  "natLiteral raw =
     (raw \<noteq> [] \<and> set raw \<subseteq> set digits \<and> (hd raw = CHR ''0'' \<longrightarrow> length raw = 1))"

definition litePayload :: "bytes \<Rightarrow> bool" where
  "litePayload raw = (natLiteral raw \<or> raw = ''null'')"

definition parseNat :: "bytes \<Rightarrow> nat" where
  "parseNat raw = foldl (\<lambda>a ch. 10 * a + (of_char ch - 48)) 0 raw"

fun showNat :: "nat \<Rightarrow> bytes" where
  "showNat n =
     (if n < 10 then [digits ! n] else showNat (n div 10) @ [digits ! (n mod 10)])"

declare showNat.simps [simp del]

definition lite_marshal :: "nat \<Rightarrow> string + RawMessage" where
  "lite_marshal n = Inr (Raw (showNat n))"

fun lite_unmarshal :: "RawMessage \<Rightarrow> nat \<Rightarrow> string option \<times> nat" where
  "lite_unmarshal NilRaw out = (Some ''unexpected end of JSON input'', out)"
| "lite_unmarshal (Raw raw) out =
     (if natLiteral raw then (None, parseNat raw)
      else if raw = ''null'' then (None, out)
      else (Some ''invalid number'', out))"

definition quoteKey :: "string \<Rightarrow> bytes" where
  "quoteKey k =
     [CHR 0x22]
     @ concat (map (\<lambda>ch. if ch = CHR 0x22 \<or> ch = CHR 0x5C then [CHR 0x5C, ch] else [ch]) k)
     @ [CHR 0x22]"

fun joinComma :: "bytes list \<Rightarrow> bytes" where
  "joinComma [] = []"
| "joinComma [x] = x"
| "joinComma (x # y # r) = x @ '','' @ joinComma (y # r)"

text \<open>What is written for a payload, if it is one that can be written.\<close>

fun liteWrite :: "RawMessage \<Rightarrow> bytes option" where
  "liteWrite NilRaw = Some ''null''"
| "liteWrite (Raw raw) = (if litePayload raw then Some raw else None)"

definition objMember :: "(string \<rightharpoonup> RawMessage) \<Rightarrow> string \<Rightarrow> bytes" where
  "objMember m k =
     quoteKey k @ '':'' @
     (case m k of None \<Rightarrow> [] | Some raw \<Rightarrow> (case liteWrite raw of None \<Rightarrow> [] | Some b \<Rightarrow> b))"

fun lite_marshalMap :: "gomap \<Rightarrow> string + bytes" where
  "lite_marshalMap NilMap = Inr ''null''"
| "lite_marshalMap (GoMap m) =
     (if ran m \<subseteq> {raw. liteWrite raw \<noteq> None}
      then Inr (''{'' @ joinComma (map (objMember m) (sorted_list_of_set (dom m))) @ ''}'')
      else Inl ''json: error calling MarshalJSON for type json.RawMessage'')"

text \<open>The reader of documents is a scanner, one step for each byte.\<close>

datatype scan =
    Start | ObjOpen | InKey string | InKeyEsc string | AfterKey string
  | BeforeVal string | InVal string bytes | AfterVal | NextKey | Done | Fail

definition jsonSpace :: "char \<Rightarrow> bool" where
  "jsonSpace ch = (ch = CHR 0x20 \<or> ch = CHR 0x09 \<or> ch = CHR 0x0A \<or> ch = CHR 0x0D)"

fun scanStep :: "scan \<times> (string \<times> bytes) list \<Rightarrow> char \<Rightarrow> scan \<times> (string \<times> bytes) list" where
  "scanStep (Start, ms) ch =
     (if jsonSpace ch then (Start, ms) else if ch = CHR ''{'' then (ObjOpen, ms) else (Fail, ms))"
| "scanStep (ObjOpen, ms) ch =
     (if jsonSpace ch then (ObjOpen, ms) else if ch = CHR 0x22 then (InKey [], ms)
      else if ch = CHR ''}'' then (Done, ms) else (Fail, ms))"
| "scanStep (InKey k, ms) ch =
     (if ch = CHR 0x22 then (AfterKey k, ms) else if ch = CHR 0x5C then (InKeyEsc k, ms)
      else if ch < CHR 0x20 then (Fail, ms) else (InKey (k @ [ch]), ms))"
| "scanStep (InKeyEsc k, ms) ch =
     (if ch = CHR 0x22 \<or> ch = CHR 0x5C \<or> ch = CHR ''/'' then (InKey (k @ [ch]), ms)
      else (Fail, ms))"
| "scanStep (AfterKey k, ms) ch =
     (if jsonSpace ch then (AfterKey k, ms) else if ch = CHR '':'' then (BeforeVal k, ms)
      else (Fail, ms))"
| "scanStep (BeforeVal k, ms) ch =
     (if jsonSpace ch then (BeforeVal k, ms)
      else if ch = CHR '','' \<or> ch = CHR ''}'' then (Fail, ms) else (InVal k [ch], ms))"
| "scanStep (InVal k v, ms) ch =
     (if jsonSpace ch then (AfterVal, ms @ [(k, v)])
      else if ch = CHR '','' then (NextKey, ms @ [(k, v)])
      else if ch = CHR ''}'' then (Done, ms @ [(k, v)]) else (InVal k (v @ [ch]), ms))"
| "scanStep (AfterVal, ms) ch =
     (if jsonSpace ch then (AfterVal, ms) else if ch = CHR '','' then (NextKey, ms)
      else if ch = CHR ''}'' then (Done, ms) else (Fail, ms))"
| "scanStep (NextKey, ms) ch =
     (if jsonSpace ch then (NextKey, ms) else if ch = CHR 0x22 then (InKey [], ms)
      else (Fail, ms))"
| "scanStep (Done, ms) ch = (if jsonSpace ch then (Done, ms) else (Fail, ms))"
| "scanStep (Fail, ms) ch = (Fail, ms)"

text \<open>\<open>trimJSON\<close> removes the JSON white space around a document.\<close>

definition trimJSON :: "bytes \<Rightarrow> bytes" where
  "trimJSON b = rev (dropWhile jsonSpace (rev (dropWhile jsonSpace b)))"

text \<open>A key that occurs twice keeps its last payload.\<close>

definition lite_unmarshalMap :: "bytes \<Rightarrow> string + gomap" where
  "lite_unmarshalMap content =
     (if trimJSON content = ''null'' then Inr NilMap
      else case foldl scanStep (Start, []) content of
             (Done, ms) \<Rightarrow>
               if list_all litePayload (map snd ms)
               then Inr (GoMap (map_of (rev (map (\<lambda>(k, v). (k, Raw v)) ms))))
               else Inl ''invalid payload''
           | _ \<Rightarrow> Inl ''invalid document'')"

definition jsonLite :: "nat codec" where
  "jsonLite =
     \<lparr>marshal = lite_marshal, unmarshal = lite_unmarshal,
      marshalMap = lite_marshalMap, unmarshalMap = lite_unmarshalMap\<rparr>"

text \<open>
  \<open>pairCodec\<close> is \<open>jsonLite\<close> for pairs of numbers of which only the first is
  written, as the Go libraries write only the exported fields of a struct; decoding
  leaves the second component of the destination as it is.
\<close>

definition pairCodec :: "(nat \<times> nat) codec" where
  "pairCodec =
     \<lparr>marshal = (\<lambda>(a, b). lite_marshal a),
      unmarshal = (\<lambda>raw (a, b). case lite_unmarshal raw a of (err, a') \<Rightarrow> (err, (a', b))),
      marshalMap = lite_marshalMap, unmarshalMap = lite_unmarshalMap\<rparr>"

text \<open>A file system with no file and no failing call, where every path is absolute.\<close>

definition emptyFS :: filesys where
  "emptyFS =
     \<lparr>files = Map.empty, canon = (\<lambda>p. p), openFault = (\<lambda>p. None), absFault = (\<lambda>p. None),
      readFault = (\<lambda>p. None), writeFault = (\<lambda>p. None), writeFileFault = (\<lambda>p. None)\<rparr>"

subsection \<open>Notions used in the statements\<close>

text \<open>
  \<open>writeFails c db fs x\<close>: the store syncs on every write, its map can be serialised,
  and writing the file fails with the error \<open>x\<close>.
\<close>

definition writeFails :: "'v codec \<Rightarrow> DB \<Rightarrow> filesys \<Rightarrow> string \<Rightarrow> bool" where
  "writeFails c db fs x =
     (OptSync \<in> set (opts db)
      \<and> (case marshalMap c (data db) of
            Inl e \<Rightarrow> False
          | Inr content \<Rightarrow> fst (os_WriteFile fs (path db) content) = Some x))"

text \<open>
  What \<open>Get\<close> returns for a key whose payload is \<open>raw\<close>: the result of the decoder,
  its error joined to \<open>ErrJSON\<close>.
\<close>

definition decoded :: "'v codec \<Rightarrow> RawMessage \<Rightarrow> 'v \<Rightarrow> error option \<times> 'v" where
  "decoded c raw out =
     (case unmarshal c raw out of
        (Some e, out') \<Rightarrow> (Some (Join ErrJSON (External e)), out')
      | (None, out') \<Rightarrow> (None, out'))"

text \<open>
  What a visitor sees. \<open>logging fn\<close> is the visitor \<open>fn\<close> that also records every
  call made to it; \<open>visited fn order s\<close> is the list of the entries \<open>Iter\<close> calls \<open>fn\<close>
  on, when the entries come in the order \<open>order\<close> and \<open>fn\<close> starts in state \<open>s\<close>;
  \<open>runOK fn es s\<close> is the state of \<open>fn\<close> after it has visited all of \<open>es\<close> with
  no error, and \<open>None\<close> if one of these visits returns an error.
\<close>

definition logging ::
  "(string \<Rightarrow> RawMessage \<Rightarrow> 's \<Rightarrow> error option \<times> 's) \<Rightarrow>
   string \<Rightarrow> RawMessage \<Rightarrow> 's \<times> (string \<times> RawMessage) list
   \<Rightarrow> error option \<times> 's \<times> (string \<times> RawMessage) list" where
  "logging fn k v = (\<lambda>(s, log). case fn k v s of (err, s') \<Rightarrow> (err, s', log @ [(k, v)]))"

fun visited ::
  "(string \<Rightarrow> RawMessage \<Rightarrow> 's \<Rightarrow> error option \<times> 's) \<Rightarrow> (string \<times> RawMessage) list \<Rightarrow> 's
   \<Rightarrow> (string \<times> RawMessage) list" where
  "visited fn [] s = []"
| "visited fn ((k, v) # rest) s =
     (k, v) # (case fn k v s of (Some err, s') \<Rightarrow> [] | (None, s') \<Rightarrow> visited fn rest s')"

fun runOK ::
  "(string \<Rightarrow> RawMessage \<Rightarrow> 's \<Rightarrow> error option \<times> 's) \<Rightarrow> (string \<times> RawMessage) list \<Rightarrow> 's
   \<Rightarrow> 's option" where
  "runOK fn [] s = Some s"
| "runOK fn ((k, v) # rest) s =
     (case fn k v s of (Some err, s') \<Rightarrow> None | (None, s') \<Rightarrow> runOK fn rest s')"

text \<open>
  Validity of the map according to the codec. A payload is \<open>decodable\<close> when
  \<open>unmarshal\<close> reads it, with no error, into some destination. A map is
  \<open>serialisable\<close> when \<open>marshalMap\<close> writes it, and a payload is \<open>writable\<close> when the
  map that holds only this payload is. The map of a store is valid (\<open>validEntries\<close>)
  when it is serialisable and every payload in it is decodable. A payload is valid
  (\<open>validPayload\<close>) when it is writable and decodable.

  \<open>codecLaws\<close> states what the JSON libraries give: the nil map is written (as
  \<^verbatim>\<open>null\<close>); a map is written exactly when each of its payloads is, whatever the
  keys; what \<open>marshal\<close> writes is a JSON value, writable and decodable; and so are the
  payloads of a document that \<open>unmarshalMap\<close> reads. A nil payload is writable and
  not decodable: the laws do not make the two the same.
\<close>

definition decodable :: "'v codec \<Rightarrow> RawMessage \<Rightarrow> bool" where
  "decodable c raw = (\<exists>out. fst (unmarshal c raw out) = None)"

definition serialisable :: "'v codec \<Rightarrow> gomap \<Rightarrow> bool" where
  "serialisable c g = (\<exists>content. marshalMap c g = Inr content)"

definition writable :: "'v codec \<Rightarrow> RawMessage \<Rightarrow> bool" where
  "writable c raw = serialisable c (GoMap [[] \<mapsto> raw])"







text \<open>Stores and file systems for the examples.\<close>

definition noSyncDB :: DB where
  "noSyncDB = \<lparr>opts = [], path = ''/db.json'', data = GoMap Map.empty\<rparr>"

definition syncDB :: DB where
  "syncDB = \<lparr>opts = [OptSync], path = ''/db.json'', data = GoMap Map.empty\<rparr>"

definition nilDB :: DB where
  "nilDB = \<lparr>opts = [], path = ''/db.json'', data = NilMap\<rparr>"

definition bootFS :: filesys where
  "bootFS = emptyFS\<lparr>files := [''/db.json'' \<mapsto> ''{}'']\<rparr>"

definition readOnlyFS :: filesys where
  "readOnlyFS = bootFS\<lparr>writeFileFault := (\<lambda>p. Some (''permission denied'', None))\<rparr>"

definition nullFS :: filesys where
  "nullFS = emptyFS\<lparr>files := [''/db.json'' \<mapsto> ''null'']\<rparr>"

definition docA1 :: bytes where
  \<open>docA1 = ''{"a":1}''\<close>


definition savedFS :: filesys where
  "savedFS = bootFS\<lparr>files := [''/db.json'' \<mapsto> docA1]\<rparr>"


definition vtFS :: filesys where
  "vtFS = emptyFS\<lparr>files := [''/db.json'' \<mapsto> [CHR 0x0B]]\<rparr>"

definition vtFS' :: filesys where
  "vtFS' = emptyFS\<lparr>files := [''/db.json'' \<mapsto> [CHR 0x0B, CHR ''{'', CHR ''}'']]\<rparr>"

definition stopAtA :: "string \<Rightarrow> RawMessage \<Rightarrow> nat \<Rightarrow> error option \<times> nat" where
  "stopAtA k v n = (if k = ''a'' then Some (External ''stop'') else None, Suc n)"

section \<open>Properties\<close>

subsection \<open>The operations, equation by equation\<close>

lemma Get_absent: "entries (data db) k = None \<Longrightarrow> Get c db k out = (Some ErrNotFound, out, db)"
  by (simp add: Get_def)

lemma Get_decoded:
  "entries (data db) k = Some raw \<Longrightarrow>
   Get c db k out = (fst (decoded c raw out), snd (decoded c raw out), db)"
  by (simp add: Get_def decoded_def split: prod.splits option.splits)


lemma Set_eq:
  "marshal c v = Inr raw \<Longrightarrow> data db = GoMap m \<Longrightarrow>
   Set c db fs k v =
     (Return (fst (syncIfNeeded c (db\<lparr>data := GoMap (m(k \<mapsto> raw))\<rparr>) fs)),
      db\<lparr>data := GoMap (m(k \<mapsto> raw))\<rparr>,
      snd (syncIfNeeded c (db\<lparr>data := GoMap (m(k \<mapsto> raw))\<rparr>) fs))"
  by (simp add: Set_def Let_def split: prod.splits)

lemma Set_fail:
  "marshal c v = Inl x \<Longrightarrow> Set c db fs k v = (Return (Some (Join ErrJSON (External x))), db, fs)"
  by (simp add: Set_def)

lemma Set_nil:
  "marshal c v = Inr raw \<Longrightarrow> data db = NilMap \<Longrightarrow>
   Set c db fs k v = (Panic ''assignment to entry in nil map'', db, fs)"
  by (simp add: Set_def)

lemma SetRaw_eq:
  "data db = GoMap m \<Longrightarrow>
   SetRaw c db fs k raw =
     (Return (fst (syncIfNeeded c (db\<lparr>data := GoMap (m(k \<mapsto> raw))\<rparr>) fs)),
      db\<lparr>data := GoMap (m(k \<mapsto> raw))\<rparr>,
      snd (syncIfNeeded c (db\<lparr>data := GoMap (m(k \<mapsto> raw))\<rparr>) fs))"
  by (simp add: SetRaw_def Let_def split: prod.splits)

lemma SetRaw_nil:
  "data db = NilMap \<Longrightarrow> SetRaw c db fs k raw = (Panic ''assignment to entry in nil map'', db, fs)"
  by (simp add: SetRaw_def)

lemma Delete_eq:
  "Delete c db fs k =
     (fst (syncIfNeeded c (db\<lparr>data := mapDelete (data db) k\<rparr>) fs),
      db\<lparr>data := mapDelete (data db) k\<rparr>,
      snd (syncIfNeeded c (db\<lparr>data := mapDelete (data db) k\<rparr>) fs))"
  by (simp add: Delete_def Let_def split: prod.splits)

lemma entries_mapDelete: "entries (mapDelete g k) = (entries g)(k := None)"
  by (cases g) simp_all

lemma mapDelete_absent: "entries g k = None \<Longrightarrow> mapDelete g k = g"
  by (cases g) (simp_all add: fun_upd_idem)

lemma Save_eq: "Save c db fs = (fst (sync c db fs), db, snd (sync c db fs))"
  by (simp add: Save_def split: prod.splits)

lemma sync_cases:
  "sync c db fs = (err, fs') \<Longrightarrow>
     (\<exists>x. marshalMap c (data db) = Inl x \<and> err = Some (Join ErrJSON (External x)) \<and> fs' = fs)
   \<or> (\<exists>content x. marshalMap c (data db) = Inr content
         \<and> os_WriteFile fs (path db) content = (Some x, fs')
         \<and> err = Some (Join ErrSync (External x)))
   \<or> (\<exists>content. marshalMap c (data db) = Inr content
         \<and> os_WriteFile fs (path db) content = (None, fs') \<and> err = None)"
  by (auto simp: sync_def split: sum.splits prod.splits option.splits)

lemma os_WriteFile_ok:
  "os_WriteFile fs name b = (None, fs') \<Longrightarrow>
   fs' = fs\<lparr>files := (files fs)(canon fs name \<mapsto> b)\<rparr>"
  by (auto simp: os_WriteFile_def split: option.splits prod.splits)

lemma sync_ok:
  "sync c db fs = (None, fs') \<Longrightarrow>
   \<exists>content. marshalMap c (data db) = Inr content
     \<and> fs' = fs\<lparr>files := (files fs)(canon fs (path db) \<mapsto> content)\<rparr>"
  by (auto dest!: sync_cases os_WriteFile_ok)

lemma syncIfNeeded_off: "OptSync \<notin> set (opts db) \<Longrightarrow> syncIfNeeded c db fs = (None, fs)"
  by (simp add: syncIfNeeded_def)

lemma syncIfNeeded_on: "OptSync \<in> set (opts db) \<Longrightarrow> syncIfNeeded c db fs = sync c db fs"
  by (simp add: syncIfNeeded_def)

lemma syncIfNeeded_error:
  "syncIfNeeded c db fs = (Some e, fs') \<Longrightarrow>
   OptSync \<in> set (opts db) \<and> (errors_Is e ErrJSON \<or> errors_Is e ErrSync) \<and> \<not> errors_Is e ErrNotFound"
  by (auto simp: syncIfNeeded_def split: if_splits dest!: sync_cases)

lemma writeFails_sync:
  "writeFails c db fs x \<Longrightarrow> fst (syncIfNeeded c db fs) = Some (Join ErrSync (External x))"
  by (auto simp: writeFails_def syncIfNeeded_def sync_def split: sum.splits prod.splits option.splits)

lemma TrimSpace_Nil: "TrimSpace [] = []"
  by (simp add: TrimSpace_def trimLeft.simps [of _ "[]"])

lemma Open_blank:
  assumes "openFault fs (canon fs p) = None" and "absFault fs p = None"
    and "readFault fs (canon fs p) = None" and "writeFault fs (canon fs p) = None"
    and "TrimSpace (contents fs (canon fs p)) = []"
    and "unmarshalMap c ''{}'' = Inr m"
  shows "Open c fs p os =
           (Inr \<lparr>opts = os, path = canon fs p, data = m\<rparr>,
            fs\<lparr>files := (files fs)(canon fs p \<mapsto> contents fs (canon fs p) @ ''{}'')\<rparr>)"
  using assms
  by (simp add: Open_def os_OpenFile_def filepath_Abs_def io_ReadAll_def file_Write_def
      contents_def Let_def)

lemma Open_nonblank:
  assumes "openFault fs (canon fs p) = None" and "absFault fs p = None"
    and "readFault fs (canon fs p) = None"
    and "files fs (canon fs p) = Some content"
    and "TrimSpace content \<noteq> []"
  shows "Open c fs p os =
           (case unmarshalMap c content of
              Inl e \<Rightarrow> Inl (Errorf ''db content is not valid JSON'' None)
            | Inr m \<Rightarrow> Inr \<lparr>opts = os, path = canon fs p, data = m\<rparr>,
            fs)"
proof -
  have "fs\<lparr>files := (files fs)(canon fs p \<mapsto> content)\<rparr> = fs"
    using assms(4) by (simp add: fun_upd_idem)
  with assms show ?thesis
    by (simp add: Open_def os_OpenFile_def filepath_Abs_def io_ReadAll_def
        contents_def Let_def split: sum.splits)
qed







subsection \<open>Validity is kept by the calls\<close>






subsection \<open>The loop of \<^verbatim>\<open>Iter\<close>\<close>

lemma iterLoop_logging:
  "iterLoop (logging fn) order (s, log) = (iterLoop fn order s, log @ visited fn order s)"
proof (induction order arbitrary: s log)
  case Nil
  then show ?case by simp
next
  case (Cons kv order)
  obtain k v where kv: "kv = (k, v)" by (cases kv)
  obtain err s' where f: "fn k v s = (err, s')" by (cases "fn k v s")
  show ?case
  proof (cases err)
    case None
    with kv f Cons.IH [of s' "log @ [(k, v)]"] show ?thesis
      by (simp add: logging_def)
  next
    case (Some e)
    with kv f show ?thesis by (simp add: logging_def)
  qed
qed

lemma visited_prefix: "\<exists>n. visited fn order s = take n order"
proof (induction order arbitrary: s)
  case Nil
  then show ?case by simp
next
  case (Cons kv order)
  obtain k v where kv: "kv = (k, v)" by (cases kv)
  obtain err s' where f: "fn k v s = (err, s')" by (cases "fn k v s")
  show ?case
  proof (cases err)
    case None
    from Cons.IH [of s'] obtain n where "visited fn order s' = take n order" ..
    with kv f None have "visited fn (kv # order) s = take (Suc n) (kv # order)" by simp
    then show ?thesis ..
  next
    case (Some e)
    with kv f have "visited fn (kv # order) s = take 1 (kv # order)" by simp
    then show ?thesis ..
  qed
qed

lemma runOK_append_error:
  "runOK fn pre s = Some s1 \<Longrightarrow> fn k v s1 = (Some e, s2) \<Longrightarrow>
   iterLoop fn (pre @ (k, v) # post) s = s2 \<and> visited fn (pre @ (k, v) # post) s = pre @ [(k, v)]"
proof (induction pre arbitrary: s)
  case Nil
  then show ?case by simp
next
  case (Cons kv pre)
  obtain k' v' where kv: "kv = (k', v')" by (cases kv)
  obtain err s' where f: "fn k' v' s = (err, s')" by (cases "fn k' v' s")
  from Cons.prems(1) kv f have err: "err = None" and r: "runOK fn pre s' = Some s1"
    by (cases err; simp)+
  from Cons.IH [OF r Cons.prems(2)] kv f err show ?case by simp
qed

lemma runOK_all:
  "runOK fn order s = Some s' \<Longrightarrow> iterLoop fn order s = s' \<and> visited fn order s = order"
proof (induction order arbitrary: s)
  case Nil
  then show ?case by simp
next
  case (Cons kv order)
  obtain k v where kv: "kv = (k, v)" by (cases kv)
  obtain err s1 where f: "fn k v s = (err, s1)" by (cases "fn k v s")
  from Cons.prems kv f have err: "err = None" and r: "runOK fn order s1 = Some s'"
    by (cases err; simp)+
  from Cons.IH [OF r] kv f err show ?case by simp
qed

lemma rangeOrder_graph:
  "rangeOrder m order \<Longrightarrow> set order = Map.graph (entries m) \<and> distinct order"
proof -
  assume r: "rangeOrder m order"
  then have d: "distinct (map fst order)" and e: "map_of order = entries m"
    by (simp_all add: rangeOrder_def)
  have "(a, b) \<in> set order \<longleftrightarrow> entries m a = Some b" for a b
    using d e map_of_eq_Some_iff [OF d, of a b] by simp
  then have "set order = Map.graph (entries m)"
    by (auto simp: Map.graph_def)
  with d show ?thesis by (simp add: distinct_map)
qed

subsection \<open>The concrete codec on the examples\<close>

lemmas lite_defs =
  jsonLite_def lite_marshal_def lite_unmarshalMap_def litePayload_def
  natLiteral_def digits_def parseNat_def objMember_def quoteKey_def jsonSpace_def trimJSON_def

lemma noSyncDB_simps:
  "opts noSyncDB = []" "path noSyncDB = ''/db.json''" "data noSyncDB = GoMap Map.empty"
  by (simp_all add: noSyncDB_def)

lemma syncDB_simps:
  "opts syncDB = [OptSync]" "path syncDB = ''/db.json''" "data syncDB = GoMap Map.empty"
  by (simp_all add: syncDB_def)

lemma readOnlyFS_write:
  "os_WriteFile readOnlyFS ''/db.json'' b = (Some ''permission denied'', readOnlyFS)"
  by (simp add: os_WriteFile_def readOnlyFS_def bootFS_def emptyFS_def)

lemma bootFS_write:
  "os_WriteFile bootFS ''/db.json'' b = (None, bootFS\<lparr>files := [''/db.json'' \<mapsto> b]\<rparr>)"
  by (simp add: os_WriteFile_def bootFS_def emptyFS_def)

lemma showNat_1: "showNat 1 = ''1''"
  by (subst showNat.simps) (simp add: digits_def)

lemma lite_marshal_1: "marshal jsonLite 1 = Inr (Raw ''1'')"
  by (simp add: lite_defs showNat_1 del: One_nat_def)

lemma lite_unmarshal_1: "unmarshal jsonLite (Raw ''1'') out = (None, 1)"
  by (simp add: lite_defs)

lemma lite_unmarshalMap_empty: "unmarshalMap jsonLite ''{}'' = Inr (GoMap Map.empty)"
  by (simp add: lite_defs)

lemma lite_unmarshalMap_null: "unmarshalMap jsonLite ''null'' = Inr NilMap"
  by (simp add: lite_defs)

lemma lite_marshalMap_empty: "marshalMap jsonLite (GoMap Map.empty) = Inr ''{}''"
  by (simp add: lite_defs)

lemma lite_marshalMap_a1: "marshalMap jsonLite (GoMap [''a'' \<mapsto> Raw ''1'']) = Inr docA1"
  by (simp add: lite_defs docA1_def)








lemma TrimSpace_null: "TrimSpace ''null'' \<noteq> []"
  by (simp add: TrimSpace_def trimLeft.simps [of _ "CHR ''n'' # _"] trimLeft.simps [of _ "CHR ''l'' # _"] spaceLen_def spaceRunes_def)

lemma TrimSpace_vt: "TrimSpace [CHR 0x0B] = []"
  by code_simp

lemma TrimSpace_vt_doc: "TrimSpace [CHR 0x0B, CHR ''{'', CHR ''}''] = ''{}''"
  by code_simp

lemma Open_emptyFS:
  "Open jsonLite emptyFS ''/db.json'' os =
     (Inr \<lparr>opts = os, path = ''/db.json'', data = GoMap Map.empty\<rparr>, bootFS)"
  using Open_blank [of emptyFS "''/db.json''" jsonLite "GoMap Map.empty" os]
  by (simp add: emptyFS_def bootFS_def contents_def TrimSpace_Nil lite_unmarshalMap_empty)

lemma Open_nullFS:
  "Open jsonLite nullFS ''/db.json'' [] = (Inr nilDB, nullFS)"
  using Open_nonblank [of nullFS "''/db.json''" "''null''" jsonLite "[]"]
  by (simp add: nullFS_def emptyFS_def TrimSpace_null lite_unmarshalMap_null nilDB_def)

lemma decodable_lite: "decodable jsonLite raw = (\<exists>b. raw = Raw b \<and> litePayload b)"
  by (cases raw) (auto simp: decodable_def jsonLite_def litePayload_def)

lemma writable_lite: "writable jsonLite raw = (liteWrite raw \<noteq> None)"
  by (auto simp: writable_def serialisable_def jsonLite_def split: if_splits)

lemma decodable_writable_lite: "decodable jsonLite raw \<Longrightarrow> writable jsonLite raw"
  by (auto simp: decodable_lite writable_lite)









lemma pair_marshal: "marshal pairCodec (1, 5) = Inr (Raw ''1'')"
  by (simp add: pairCodec_def lite_marshal_def showNat_1 del: One_nat_def)



subsection \<open>The claims\<close>

text \<open>
  C1, as the code has it. Let the codec encode \<open>v\<close> as \<open>raw\<close>, and let the map of the
  store not be nil. Then \<open>Set k v\<close> returns, with the store holding \<open>raw\<close> at \<open>k\<close>;
  what it returns is the error of the sync that follows the write, none in a store
  opened without \<open>OptSync\<close>. On the store it leaves, \<open>Get k out\<close> returns what the
  decoder returns on \<open>raw\<close> and \<open>out\<close>: its error, in the class \<open>ErrJSON\<close>, and the
  destination as the decoder leaves it. So \<open>Get\<close> returns no error and \<open>v\<close> exactly
  when the codec decodes its own encoding of \<open>v\<close> into \<open>out\<close> as \<open>v\<close>: the store adds
  nothing to the codec and takes nothing from it.
\<close>

theorem Set_then_Get:
  assumes enc: "marshal c v = Inr raw" and m: "data db = GoMap m"
  shows "case Set c db fs k v of (res, db', fs') \<Rightarrow>
           db' = db\<lparr>data := GoMap (m(k \<mapsto> raw))\<rparr>
           \<and> res = Return (fst (syncIfNeeded c db' fs))
           \<and> (OptSync \<notin> set (opts db) \<longrightarrow> res = Return None)
           \<and> Get c db' k out = (fst (decoded c raw out), snd (decoded c raw out), db')
           \<and> (Get c db' k out = (None, v, db')) = (unmarshal c raw out = (None, v))"
proof -
  let ?db = "db\<lparr>data := GoMap (m(k \<mapsto> raw))\<rparr>"
  have e: "entries (data ?db) k = Some raw" by simp
  have g: "Get c ?db k out = (fst (decoded c raw out), snd (decoded c raw out), ?db)"
    using e by (rule Get_decoded)
  have iff: "(Get c ?db k out = (None, v, ?db)) = (unmarshal c raw out = (None, v))"
    unfolding g by (auto simp: decoded_def split: prod.splits option.splits)
  have off: "OptSync \<notin> set (opts db) \<longrightarrow> fst (syncIfNeeded c ?db fs) = None"
    by (simp add: syncIfNeeded_def)
  from g iff off show ?thesis
    by (simp add: Set_eq [OF enc m])
qed

theorem Set_then_Get_witness:
  "marshal jsonLite 1 = Inr (Raw ''1'') \<and> data noSyncDB = GoMap Map.empty
   \<and> Set jsonLite noSyncDB bootFS ''k'' 1
       = (Return None, noSyncDB\<lparr>data := GoMap [''k'' \<mapsto> Raw ''1'']\<rparr>, bootFS)
   \<and> Get jsonLite (noSyncDB\<lparr>data := GoMap [''k'' \<mapsto> Raw ''1'']\<rparr>) ''k'' 0
       = (None, 1, noSyncDB\<lparr>data := GoMap [''k'' \<mapsto> Raw ''1'']\<rparr>)"
proof -
  have m: "data noSyncDB = GoMap Map.empty" by (simp add: noSyncDB_def)
  have off: "OptSync \<notin> set (opts noSyncDB)" by (simp add: noSyncDB_def)
  have f: "snd (snd (Set jsonLite noSyncDB bootFS ''k'' 1)) = bootFS"
    by (simp add: Set_eq [OF lite_marshal_1 m] syncIfNeeded_def off del: One_nat_def)
  note T = Set_then_Get [OF lite_marshal_1 m, where fs = bootFS and k = "''k''" and out = 0,
      unfolded case_prod_beta]
  from T off have 1: "fst (snd (Set jsonLite noSyncDB bootFS ''k'' 1))
                    = noSyncDB\<lparr>data := GoMap [''k'' \<mapsto> Raw ''1'']\<rparr>"
    and 2: "fst (Set jsonLite noSyncDB bootFS ''k'' 1) = Return None"
    by blast+
  from T have "(Get jsonLite (fst (snd (Set jsonLite noSyncDB bootFS ''k'' 1))) ''k'' 0
                 = (None, 1, fst (snd (Set jsonLite noSyncDB bootFS ''k'' 1))))
               = (unmarshal jsonLite (Raw ''1'') 0 = (None, 1))"
    by blast
  with lite_unmarshal_1 [of 0] 1
  have 3: "Get jsonLite (noSyncDB\<lparr>data := GoMap [''k'' \<mapsto> Raw ''1'']\<rparr>) ''k'' 0
       = (None, 1, noSyncDB\<lparr>data := GoMap [''k'' \<mapsto> Raw ''1'']\<rparr>)"
    by (simp del: One_nat_def)
  from 1 2 f have "Set jsonLite noSyncDB bootFS ''k'' 1
       = (Return None, noSyncDB\<lparr>data := GoMap [''k'' \<mapsto> Raw ''1'']\<rparr>, bootFS)"
    by (simp add: prod_eq_iff del: One_nat_def)
  with lite_marshal_1 m 3 show ?thesis by (intro conjI)
qed


text \<open>
  C1, as the claim has it, fails. \<open>Set\<close> of an encodable value need not succeed: in
  a store opened with \<open>OptSync\<close> whose file cannot be written it returns an error of
  the class \<open>ErrSync\<close>. \<open>Get\<close> need not yield the value: with a codec that writes
  the first component of a pair only, as the JSON libraries write the exported fields
  of a struct only, \<open>Set\<close> of \<open>(1, 5)\<close> and \<open>Get\<close> into \<open>(0, 0)\<close> return no error and
  leave \<open>(1, 0)\<close> in the destination. And \<open>Set\<close> need not return: on a file that
  holds \<^verbatim>\<open>null\<close>, \<open>Open\<close> succeeds with the nil map, and \<open>Set\<close> panics on the
  assignment.
\<close>

theorem roundtrip_counterexample:
  "marshal jsonLite 1 = Inr (Raw ''1'')
   \<and> Set jsonLite syncDB readOnlyFS ''k'' 1
       = (Return (Some (Join ErrSync (External ''permission denied''))),
          syncDB\<lparr>data := GoMap [''k'' \<mapsto> Raw ''1'']\<rparr>, readOnlyFS)
   \<and> marshal pairCodec (1, 5) = Inr (Raw ''1'')
   \<and> Set pairCodec noSyncDB bootFS ''k'' (1, 5)
       = (Return None, noSyncDB\<lparr>data := GoMap [''k'' \<mapsto> Raw ''1'']\<rparr>, bootFS)
   \<and> Get pairCodec (noSyncDB\<lparr>data := GoMap [''k'' \<mapsto> Raw ''1'']\<rparr>) ''k'' (0, 0)
       = (None, (1, 0), noSyncDB\<lparr>data := GoMap [''k'' \<mapsto> Raw ''1'']\<rparr>)
   \<and> Open jsonLite nullFS ''/db.json'' [] = (Inr nilDB, nullFS)
   \<and> Set jsonLite nilDB nullFS ''k'' 1
       = (Panic ''assignment to entry in nil map'', nilDB, nullFS)"
proof -
  have ms: "data syncDB = GoMap Map.empty" and mn: "data noSyncDB = GoMap Map.empty"
    by (simp_all add: syncDB_def noSyncDB_def)
  have mm: "lite_marshalMap (GoMap [''k'' \<mapsto> Raw ''1'']) \<noteq> Inl e" for e
    by (simp add: litePayload_def natLiteral_def digits_def)
  then obtain content where c: "lite_marshalMap (GoMap [''k'' \<mapsto> Raw ''1'']) = Inr content"
    by (cases "lite_marshalMap (GoMap [''k'' \<mapsto> Raw ''1''])") auto
  have w: "os_WriteFile readOnlyFS ''/db.json'' b = (Some ''permission denied'', readOnlyFS)" for b
    by (simp add: os_WriteFile_def readOnlyFS_def bootFS_def emptyFS_def)
  have s: "syncIfNeeded jsonLite (syncDB\<lparr>data := GoMap [''k'' \<mapsto> Raw ''1'']\<rparr>) readOnlyFS
             = (Some (Join ErrSync (External ''permission denied'')), readOnlyFS)"
    using c by (simp add: syncIfNeeded_on sync_def syncDB_simps jsonLite_def readOnlyFS_write
        del: lite_marshalMap.simps)
  have 1: "Set jsonLite syncDB readOnlyFS ''k'' 1
       = (Return (Some (Join ErrSync (External ''permission denied''))),
          syncDB\<lparr>data := GoMap [''k'' \<mapsto> Raw ''1'']\<rparr>, readOnlyFS)"
    by (simp add: Set_eq [OF lite_marshal_1 ms] s del: One_nat_def)
  have 2: "Set pairCodec noSyncDB bootFS ''k'' (1, 5)
       = (Return None, noSyncDB\<lparr>data := GoMap [''k'' \<mapsto> Raw ''1'']\<rparr>, bootFS)"
    by (simp add: Set_eq [OF pair_marshal mn] syncIfNeeded_off noSyncDB_simps del: One_nat_def)
  have 3: "Get pairCodec (noSyncDB\<lparr>data := GoMap [''k'' \<mapsto> Raw ''1'']\<rparr>) ''k'' (0, 0)
       = (None, (1, 0), noSyncDB\<lparr>data := GoMap [''k'' \<mapsto> Raw ''1'']\<rparr>)"
    by (simp add: Get_def pairCodec_def natLiteral_def digits_def parseNat_def noSyncDB_simps)
  have n: "data nilDB = NilMap" by (simp add: nilDB_def)
  have 4: "Set jsonLite nilDB nullFS ''k'' 1
       = (Panic ''assignment to entry in nil map'', nilDB, nullFS)"
    using lite_marshal_1 n by (rule Set_nil)
  from lite_marshal_1 1 pair_marshal 2 3 Open_nullFS 4 show ?thesis by (intro conjI)
qed


text \<open>
  C6. Not found. When the key is absent from the map, because it was never stored or
  because the store is the one a \<open>Delete\<close> of the key leaves, \<open>Get\<close> returns
  \<open>ErrNotFound\<close> with the destination as it was, \<open>GetRaw\<close> returns \<open>ErrNotFound\<close>, and
  both leave the store as it was.
\<close>

theorem not_found:
  assumes "entries (data db) k = None \<or> (\<exists>db0 fs. db = fst (snd (Delete c db0 fs k)))"
  shows "Get c db k out = (Some ErrNotFound, out, db) \<and> GetRaw db k = (Inl ErrNotFound, db)"
proof -
  from assms have "entries (data db) k = None"
    by (auto simp: Delete_eq entries_mapDelete)
  then show ?thesis
    by (simp add: Get_def GetRaw_def)
qed

theorem not_found_witness:
  "entries (data noSyncDB) ''a'' = None
   \<and> Get jsonLite noSyncDB ''a'' 7 = (Some ErrNotFound, 7, noSyncDB)
   \<and> GetRaw noSyncDB ''a'' = (Inl ErrNotFound, noSyncDB)"
proof -
  have h: "entries (data noSyncDB) ''a'' = None" by (simp add: noSyncDB_def)
  with not_found [where db = noSyncDB and k = "''a''" and c = jsonLite and out = 7] show ?thesis by simp
qed


text \<open>
  C5. \<open>Save\<close> returns an error of the class \<open>ErrJSON\<close> exactly when the map cannot be
  serialised, and an error of the class \<open>ErrSync\<close> exactly when the map is serialised
  and writing the file fails; it returns no error exactly when both steps succeed, so
  no error is of both classes. In every case the store after the call is the store
  before it.
\<close>

theorem Save_errors:
  "case Save c db fs of (err, db', fs') \<Rightarrow>
     db' = db
     \<and> ((\<exists>e. err = Some e \<and> errors_Is e ErrJSON) = (\<exists>x. marshalMap c (data db) = Inl x))
     \<and> ((\<exists>e. err = Some e \<and> errors_Is e ErrSync) =
          (\<exists>content x. marshalMap c (data db) = Inr content
             \<and> fst (os_WriteFile fs (path db) content) = Some x))
     \<and> (err = None) =
          (\<exists>content. marshalMap c (data db) = Inr content
             \<and> fst (os_WriteFile fs (path db) content) = None)"
  by (auto simp: Save_def sync_def split: prod.splits sum.splits option.splits)

theorem Save_errors_witness:
  "Save jsonLite syncDB readOnlyFS
     = (Some (Join ErrSync (External ''permission denied'')), syncDB, readOnlyFS)
   \<and> errors_Is (Join ErrSync (External ''permission denied'')) ErrSync
   \<and> \<not> errors_Is (Join ErrSync (External ''permission denied'')) ErrJSON
   \<and> marshalMap jsonLite (data syncDB) = Inr ''{}''
   \<and> fst (os_WriteFile readOnlyFS (path syncDB) ''{}'') = Some ''permission denied''"
proof -
  have m: "marshalMap jsonLite (data syncDB) = Inr ''{}''"
    by (simp add: syncDB_simps lite_marshalMap_empty)
  have w: "os_WriteFile readOnlyFS (path syncDB) ''{}'' = (Some ''permission denied'', readOnlyFS)"
    by (simp add: syncDB_simps readOnlyFS_write)
  have s: "Save jsonLite syncDB readOnlyFS
     = (Some (Join ErrSync (External ''permission denied'')), syncDB, readOnlyFS)"
    by (simp add: Save_def sync_def m w)
  from Save_errors [where c = jsonLite and db = syncDB and fs = readOnlyFS] s m w show ?thesis
    by simp
qed


text \<open>
  C4. Auto-sync. In a store opened without \<open>OptSync\<close>, \<open>Set\<close>, \<open>SetRaw\<close> and
  \<open>Delete\<close> leave the file system as it was, whatever they return. In a store opened
  with \<open>OptSync\<close>, when one of them returns no error, the file of the store holds the
  serialisation of the map the call leaves, and the file system is the one \<open>Save\<close>
  would have left.
\<close>

theorem auto_sync_policy:
  "(OptSync \<notin> set (opts db) \<longrightarrow>
      snd (snd (Set c db fs k v)) = fs \<and> snd (snd (SetRaw c db fs k raw)) = fs
      \<and> snd (snd (Delete c db fs k)) = fs)
   \<and> (OptSync \<in> set (opts db) \<longrightarrow>
        (\<forall>db' fs'. Set c db fs k v = (Return None, db', fs')
             \<or> SetRaw c db fs k raw = (Return None, db', fs')
             \<or> Delete c db fs k = (None, db', fs') \<longrightarrow>
           (\<exists>content. marshalMap c (data db') = Inr content
              \<and> files fs' (canon fs' (path db')) = Some content
              \<and> Save c db' fs = (None, db', fs'))))"
proof (intro conjI impI allI)
  assume off: "OptSync \<notin> set (opts db)"
  show "snd (snd (Set c db fs k v)) = fs"
    using off
    by (cases "marshal c v"; cases "data db") (simp_all add: Set_fail Set_nil Set_eq syncIfNeeded_off)
  show "snd (snd (SetRaw c db fs k raw)) = fs"
    using off by (cases "data db") (simp_all add: SetRaw_nil SetRaw_eq syncIfNeeded_off)
  show "snd (snd (Delete c db fs k)) = fs"
    using off by (simp add: Delete_eq syncIfNeeded_off)
next
  fix db' fs'
  assume on: "OptSync \<in> set (opts db)"
    and ok: "Set c db fs k v = (Return None, db', fs')
             \<or> SetRaw c db fs k raw = (Return None, db', fs')
             \<or> Delete c db fs k = (None, db', fs')"
  from ok have "opts db' = opts db \<and> syncIfNeeded c db' fs = (None, fs')"
  proof (elim disjE)
    assume "Set c db fs k v = (Return None, db', fs')"
    then show ?thesis
      by (cases "marshal c v"; cases "data db") (auto simp: Set_fail Set_nil Set_eq prod_eq_iff)
  next
    assume "SetRaw c db fs k raw = (Return None, db', fs')"
    then show ?thesis
      by (cases "data db") (auto simp: SetRaw_nil SetRaw_eq prod_eq_iff)
  next
    assume "Delete c db fs k = (None, db', fs')"
    then show ?thesis
      by (auto simp: Delete_eq prod_eq_iff)
  qed
  with on have s: "sync c db' fs = (None, fs')"
    by (auto simp: syncIfNeeded_def)
  from sync_ok [OF s] obtain content where
    "marshalMap c (data db') = Inr content"
    "fs' = fs\<lparr>files := (files fs)(canon fs (path db') \<mapsto> content)\<rparr>" by blast
  with s show "\<exists>content. marshalMap c (data db') = Inr content
              \<and> files fs' (canon fs' (path db')) = Some content
              \<and> Save c db' fs = (None, db', fs')"
    by (simp add: Save_eq)
qed

theorem auto_sync_policy_witness:
  "OptSync \<in> set (opts syncDB)
   \<and> Set jsonLite syncDB bootFS ''a'' 1
       = (Return None, syncDB\<lparr>data := GoMap [''a'' \<mapsto> Raw ''1'']\<rparr>, savedFS)
   \<and> (\<exists>content. marshalMap jsonLite (GoMap [''a'' \<mapsto> Raw ''1'']) = Inr content
          \<and> files savedFS ''/db.json'' = Some content)
   \<and> OptSync \<notin> set (opts noSyncDB)
   \<and> snd (snd (Set jsonLite noSyncDB bootFS ''a'' 1)) = bootFS"
proof -
  let ?db = "syncDB\<lparr>data := GoMap [''a'' \<mapsto> Raw ''1'']\<rparr>"
  have on: "OptSync \<in> set (opts syncDB)" and off: "OptSync \<notin> set (opts noSyncDB)"
    by (simp_all add: syncDB_simps noSyncDB_simps)
  have w: "os_WriteFile bootFS ''/db.json'' docA1 = (None, savedFS)"
    by (simp add: bootFS_write savedFS_def)
  have sy: "syncIfNeeded jsonLite ?db bootFS = (None, savedFS)"
    by (simp add: syncIfNeeded_on sync_def syncDB_simps lite_marshalMap_a1 w)
  have s: "Set jsonLite syncDB bootFS ''a'' 1 = (Return None, ?db, savedFS)"
    by (simp add: Set_eq [OF lite_marshal_1 syncDB_simps(3)] sy del: One_nat_def)
  have c: "canon savedFS (path ?db) = ''/db.json''" and d: "data ?db = GoMap [''a'' \<mapsto> Raw ''1'']"
    by (simp_all add: savedFS_def bootFS_def emptyFS_def syncDB_simps)
  note T = auto_sync_policy [where c = jsonLite and fs = bootFS and k = "''a''" and v = 1]
  from T [where db = syncDB, THEN conjunct2, rule_format, OF on, OF disjI1, OF s]
  have y: "\<exists>content. marshalMap jsonLite (GoMap [''a'' \<mapsto> Raw ''1'']) = Inr content
          \<and> files savedFS ''/db.json'' = Some content"
    unfolding c d by auto
  from T [where db = noSyncDB, THEN conjunct1, rule_format, OF off]
  have n: "snd (snd (Set jsonLite noSyncDB bootFS ''a'' 1)) = bootFS"
    by (rule conjunct1)
  from on off s y n show ?thesis
    by (intro conjI)
qed


text \<open>
  C7, as the code has it. Two calls of \<open>Delete k\<close> in a row: after the first the key is
  absent, the second leaves the store as the first left it, and \<open>Get k\<close> returns
  \<open>ErrNotFound\<close> after each. The error of each call is the error of the sync that
  follows it: none in a store opened without \<open>OptSync\<close>, and otherwise an error of the
  class \<open>ErrJSON\<close> or \<open>ErrSync\<close>, never \<open>ErrNotFound\<close>. That the key is absent is
  never an error.
\<close>

theorem Delete_twice:
  assumes d1: "Delete c db fs k = (e1, db1, fs1)"
      and d2: "Delete c db1 fs1 k = (e2, db2, fs2)"
  shows "entries (data db1) k = None \<and> db2 = db1
         \<and> Get c db1 k out = (Some ErrNotFound, out, db1)
         \<and> Get c db2 k out = (Some ErrNotFound, out, db2)
         \<and> e1 = fst (syncIfNeeded c db1 fs) \<and> e2 = fst (syncIfNeeded c db1 fs1)
         \<and> (OptSync \<notin> set (opts db) \<longrightarrow> e1 = None \<and> e2 = None)
         \<and> (\<forall>e. e1 = Some e \<or> e2 = Some e \<longrightarrow>
               OptSync \<in> set (opts db) \<and> (errors_Is e ErrJSON \<or> errors_Is e ErrSync)
               \<and> \<not> errors_Is e ErrNotFound)"
proof -
  from d1 have db1: "db1 = db\<lparr>data := mapDelete (data db) k\<rparr>"
    by (simp add: Delete_eq)
  from d1 have e1: "e1 = fst (syncIfNeeded c db1 fs)"
    unfolding db1 by (simp add: Delete_eq)
  from db1 have absent: "entries (data db1) k = None"
    by (simp add: entries_mapDelete)
  from absent have same: "db1\<lparr>data := mapDelete (data db1) k\<rparr> = db1"
    by (simp add: mapDelete_absent)
  from d2 same have db2: "db2 = db1"
    by (simp add: Delete_eq)
  from d2 same have e2: "e2 = fst (syncIfNeeded c db1 fs1)"
    by (auto simp: Delete_eq)
  have o: "opts db1 = opts db" by (simp add: db1)
  have cls: "OptSync \<in> set (opts db) \<and> (errors_Is e ErrJSON \<or> errors_Is e ErrSync)
               \<and> \<not> errors_Is e ErrNotFound"
    if "fst (syncIfNeeded c db1 f) = Some e" for e f
  proof -
    from that have "syncIfNeeded c db1 f = (Some e, snd (syncIfNeeded c db1 f))"
      by (simp add: prod_eq_iff)
    from syncIfNeeded_error [OF this] o show ?thesis by simp
  qed
  have errs: "\<forall>e. e1 = Some e \<or> e2 = Some e \<longrightarrow>
               OptSync \<in> set (opts db) \<and> (errors_Is e ErrJSON \<or> errors_Is e ErrSync)
               \<and> \<not> errors_Is e ErrNotFound"
    unfolding e1 e2 using cls by blast
  have off: "OptSync \<notin> set (opts db) \<longrightarrow> e1 = None \<and> e2 = None"
    unfolding e1 e2 using o by (simp add: syncIfNeeded_def)
  have g1: "Get c db1 k out = (Some ErrNotFound, out, db1)"
    using absent by (rule Get_absent)
  have g2: "Get c db2 k out = (Some ErrNotFound, out, db2)"
    unfolding db2 by (rule g1)
  from absent db2 g1 g2 e1 e2 off errs show ?thesis
    by (intro conjI)
qed

theorem Delete_twice_witness:
  "Delete jsonLite (noSyncDB\<lparr>data := GoMap [''a'' \<mapsto> Raw ''1'']\<rparr>) bootFS ''a''
     = (None, noSyncDB, bootFS)
   \<and> Delete jsonLite noSyncDB bootFS ''a'' = (None, noSyncDB, bootFS)
   \<and> Get jsonLite noSyncDB ''a'' 0 = (Some ErrNotFound, 0, noSyncDB)"
proof -
  have d1: "Delete jsonLite (noSyncDB\<lparr>data := GoMap [''a'' \<mapsto> Raw ''1'']\<rparr>) bootFS ''a''
              = (None, noSyncDB, bootFS)"
    by (simp add: Delete_eq syncIfNeeded_def noSyncDB_def)
  have d2: "Delete jsonLite noSyncDB bootFS ''a'' = (None, noSyncDB, bootFS)"
    by (simp add: Delete_eq syncIfNeeded_def noSyncDB_def)
  from Delete_twice [OF d1 d2, where out = 0] have
    "Get jsonLite noSyncDB ''a'' 0 = (Some ErrNotFound, 0, noSyncDB)"
    by blast
  with d1 d2 show ?thesis by (intro conjI)
qed


text \<open>
  C7, as the claim has it, fails: \<open>Delete\<close> of an absent key returns an error when the
  sync that follows it fails. First, a store opened with \<open>OptSync\<close> on an absent file
  and given, by \<open>SetRaw\<close>, a payload that is not JSON: \<open>Delete\<close> returns an error of
  the class \<open>ErrJSON\<close>. Second, a store opened with \<open>OptSync\<close> whose file cannot be
  written: \<open>Delete\<close> returns an error of the class \<open>ErrSync\<close>.
\<close>

theorem Delete_error_counterexample:
  "Open jsonLite emptyFS ''/db.json'' [OptSync] = (Inr syncDB, bootFS)
   \<and> snd (SetRaw jsonLite syncDB bootFS ''x'' (Raw ''oops''))
       = (syncDB\<lparr>data := GoMap [''x'' \<mapsto> Raw ''oops'']\<rparr>, bootFS)
   \<and> Delete jsonLite (syncDB\<lparr>data := GoMap [''x'' \<mapsto> Raw ''oops'']\<rparr>) bootFS ''k''
       = (Some (Join ErrJSON (External ''json: error calling MarshalJSON for type json.RawMessage'')),
          syncDB\<lparr>data := GoMap [''x'' \<mapsto> Raw ''oops'']\<rparr>, bootFS)
   \<and> Delete jsonLite syncDB readOnlyFS ''k''
       = (Some (Join ErrSync (External ''permission denied'')), syncDB, readOnlyFS)"
proof -
  let ?bad = "syncDB\<lparr>data := GoMap [''x'' \<mapsto> Raw ''oops'']\<rparr>"
  have m: "[''x'' \<mapsto> Raw ''oops''](''k'' := None) = [''x'' \<mapsto> Raw ''oops'']"
    by (rule ext) simp
  have bad: "marshalMap jsonLite (GoMap [''x'' \<mapsto> Raw ''oops''])
               = Inl ''json: error calling MarshalJSON for type json.RawMessage''"
    by (simp add: lite_defs)
  have sy: "syncIfNeeded jsonLite ?bad bootFS
              = (Some (Join ErrJSON (External ''json: error calling MarshalJSON for type json.RawMessage'')),
                 bootFS)"
    by (simp add: syncIfNeeded_on sync_def syncDB_simps bad)
  have 1: "Open jsonLite emptyFS ''/db.json'' [OptSync] = (Inr syncDB, bootFS)"
    by (simp add: Open_emptyFS syncDB_def)
  have 2: "snd (SetRaw jsonLite syncDB bootFS ''x'' (Raw ''oops'')) = (?bad, bootFS)"
    by (simp add: SetRaw_eq [OF syncDB_simps(3)] sy)
  have 3: "Delete jsonLite ?bad bootFS ''k''
       = (Some (Join ErrJSON (External ''json: error calling MarshalJSON for type json.RawMessage'')),
          ?bad, bootFS)"
    by (simp add: Delete_eq syncDB_simps m sy)
  have e: "syncDB\<lparr>data := mapDelete (data syncDB) ''k''\<rparr> = syncDB"
    by (simp add: syncDB_def)
  have 4: "Delete jsonLite syncDB readOnlyFS ''k''
       = (Some (Join ErrSync (External ''permission denied'')), syncDB, readOnlyFS)"
    by (simp add: Delete_eq e syncIfNeeded_on sync_def syncDB_simps lite_marshalMap_empty
        readOnlyFS_write)
  from 1 2 3 4 show ?thesis by (intro conjI)
qed


text \<open>
  C10. No rollback. In a store opened with \<open>OptSync\<close>, when the map the call leaves
  can be serialised and writing the file fails with \<open>x\<close>, each of \<open>Set\<close>, \<open>SetRaw\<close>
  and \<open>Delete\<close> returns the error \<open>ErrSync\<close> joined with \<open>x\<close>, and the store it leaves
  holds the new entry, or lacks the deleted key. \<open>Set\<close> and \<open>SetRaw\<close> leave a map, and
  write the file, when the map of the store is not nil; on the nil map they panic on
  the assignment, before any write, and leave the store and the file system as they
  were. \<open>Delete\<close> needs no such condition. So there is a call that returns an error,
  changes the map, and leaves a file that is not the serialisation of the map.
\<close>

theorem failed_sync_keeps_mutation:
  "(data db = GoMap m \<and> marshal c v = Inr raw
      \<and> writeFails c (db\<lparr>data := GoMap (m(k \<mapsto> raw))\<rparr>) fs x \<longrightarrow>
      (case Set c db fs k v of (res, db', fs') \<Rightarrow>
         res = Return (Some (Join ErrSync (External x)))
         \<and> errors_Is (Join ErrSync (External x)) ErrSync
         \<and> db' = db\<lparr>data := GoMap (m(k \<mapsto> raw))\<rparr> \<and> entries (data db') k = Some raw))
   \<and> (data db = GoMap m \<and> writeFails c (db\<lparr>data := GoMap (m(k \<mapsto> raw))\<rparr>) fs x \<longrightarrow>
      (case SetRaw c db fs k raw of (res, db', fs') \<Rightarrow>
         res = Return (Some (Join ErrSync (External x)))
         \<and> db' = db\<lparr>data := GoMap (m(k \<mapsto> raw))\<rparr> \<and> entries (data db') k = Some raw))
   \<and> (writeFails c (db\<lparr>data := mapDelete (data db) k\<rparr>) fs x \<longrightarrow>
      (case Delete c db fs k of (err, db', fs') \<Rightarrow>
         err = Some (Join ErrSync (External x))
         \<and> db' = db\<lparr>data := mapDelete (data db) k\<rparr> \<and> entries (data db') k = None))
   \<and> (data db = NilMap \<and> marshal c v = Inr raw \<longrightarrow>
        Set c db fs k v = (Panic ''assignment to entry in nil map'', db, fs))
   \<and> (data db = NilMap \<longrightarrow>
        SetRaw c db fs k raw = (Panic ''assignment to entry in nil map'', db, fs))
   \<and> (\<exists>db fs k raw.
        case SetRaw jsonLite db fs k raw of (res, db', fs') \<Rightarrow>
          res = Return (Some (Join ErrSync (External ''permission denied'')))
          \<and> data db' \<noteq> data db
          \<and> marshalMap jsonLite (data db') \<noteq> Inr (contents fs' (path db')))"
proof (intro conjI impI)
  assume "data db = GoMap m \<and> marshal c v = Inr raw
      \<and> writeFails c (db\<lparr>data := GoMap (m(k \<mapsto> raw))\<rparr>) fs x"
  then show "case Set c db fs k v of (res, db', fs') \<Rightarrow>
         res = Return (Some (Join ErrSync (External x)))
         \<and> errors_Is (Join ErrSync (External x)) ErrSync
         \<and> db' = db\<lparr>data := GoMap (m(k \<mapsto> raw))\<rparr> \<and> entries (data db') k = Some raw"
    by (simp add: Set_eq writeFails_sync)
next
  assume "data db = GoMap m \<and> writeFails c (db\<lparr>data := GoMap (m(k \<mapsto> raw))\<rparr>) fs x"
  then show "case SetRaw c db fs k raw of (res, db', fs') \<Rightarrow>
         res = Return (Some (Join ErrSync (External x)))
         \<and> db' = db\<lparr>data := GoMap (m(k \<mapsto> raw))\<rparr> \<and> entries (data db') k = Some raw"
    by (simp add: SetRaw_eq writeFails_sync)
next
  assume "writeFails c (db\<lparr>data := mapDelete (data db) k\<rparr>) fs x"
  then show "case Delete c db fs k of (err, db', fs') \<Rightarrow>
         err = Some (Join ErrSync (External x))
         \<and> db' = db\<lparr>data := mapDelete (data db) k\<rparr> \<and> entries (data db') k = None"
    by (simp add: Delete_eq writeFails_sync entries_mapDelete)
next
  assume "data db = NilMap \<and> marshal c v = Inr raw"
  then show "Set c db fs k v = (Panic ''assignment to entry in nil map'', db, fs)"
    by (simp add: Set_nil)
next
  assume "data db = NilMap"
  then show "SetRaw c db fs k raw = (Panic ''assignment to entry in nil map'', db, fs)"
    by (rule SetRaw_nil)
next
  let ?db = "syncDB\<lparr>data := GoMap [''a'' \<mapsto> Raw ''1'']\<rparr>"
  have sy: "syncIfNeeded jsonLite ?db readOnlyFS
              = (Some (Join ErrSync (External ''permission denied'')), readOnlyFS)"
    by (simp add: syncIfNeeded_on sync_def syncDB_simps lite_marshalMap_a1 readOnlyFS_write)
  have ne: "GoMap [''a'' \<mapsto> Raw ''1''] \<noteq> GoMap Map.empty"
    by (simp add: fun_eq_iff)
  have f: "contents readOnlyFS ''/db.json'' = ''{}''"
    by (simp add: contents_def readOnlyFS_def bootFS_def emptyFS_def)
  have "case SetRaw jsonLite syncDB readOnlyFS ''a'' (Raw ''1'') of (res, db', fs') \<Rightarrow>
          res = Return (Some (Join ErrSync (External ''permission denied'')))
          \<and> data db' \<noteq> data syncDB
          \<and> marshalMap jsonLite (data db') \<noteq> Inr (contents fs' (path db'))"
    by (simp add: SetRaw_eq [OF syncDB_simps(3)] sy syncDB_simps ne lite_marshalMap_a1 f docA1_def)
  then show "\<exists>db fs k raw.
        case SetRaw jsonLite db fs k raw of (res, db', fs') \<Rightarrow>
          res = Return (Some (Join ErrSync (External ''permission denied'')))
          \<and> data db' \<noteq> data db
          \<and> marshalMap jsonLite (data db') \<noteq> Inr (contents fs' (path db'))"
    by - (rule exI [where x = syncDB], rule exI [where x = readOnlyFS],
          rule exI [where x = "''a''"], rule exI [where x = "Raw ''1''"])
qed

theorem failed_sync_keeps_mutation_witness:
  "data syncDB = GoMap Map.empty \<and> marshal jsonLite 1 = Inr (Raw ''1'')
   \<and> writeFails jsonLite (syncDB\<lparr>data := GoMap [''a'' \<mapsto> Raw ''1'']\<rparr>) readOnlyFS
        ''permission denied''
   \<and> fst (Set jsonLite syncDB readOnlyFS ''a'' 1)
       = Return (Some (Join ErrSync (External ''permission denied'')))
   \<and> entries (data (fst (snd (Set jsonLite syncDB readOnlyFS ''a'' 1)))) ''a'' = Some (Raw ''1'')
   \<and> snd (snd (Set jsonLite syncDB readOnlyFS ''a'' 1)) = readOnlyFS
   \<and> files readOnlyFS ''/db.json'' = Some ''{}''
   \<and> data nilDB = NilMap
   \<and> SetRaw jsonLite nilDB nullFS ''a'' (Raw ''1'')
       = (Panic ''assignment to entry in nil map'', nilDB, nullFS)"
proof -
  let ?db = "syncDB\<lparr>data := GoMap [''a'' \<mapsto> Raw ''1'']\<rparr>"
  have f: "files readOnlyFS ''/db.json'' = Some ''{}''"
    by (simp add: readOnlyFS_def bootFS_def emptyFS_def)
  have wf: "writeFails jsonLite ?db readOnlyFS ''permission denied''"
    by (simp add: writeFails_def syncDB_simps lite_marshalMap_a1 readOnlyFS_write)
  have sy: "syncIfNeeded jsonLite ?db readOnlyFS
              = (Some (Join ErrSync (External ''permission denied'')), readOnlyFS)"
    by (simp add: syncIfNeeded_on sync_def syncDB_simps lite_marshalMap_a1 readOnlyFS_write)
  have s2: "snd (snd (Set jsonLite syncDB readOnlyFS ''a'' 1)) = readOnlyFS"
    by (simp add: Set_eq [OF lite_marshal_1 syncDB_simps(3)] sy del: One_nat_def)
  note T = failed_sync_keeps_mutation
         [where c = jsonLite and v = 1 and raw = "Raw ''1''" and db = syncDB and k = "''a''"
            and m = Map.empty and fs = readOnlyFS and x = "''permission denied''",
          unfolded case_prod_beta, THEN conjunct1, rule_format]
  from T syncDB_simps(3) lite_marshal_1 wf
  have "fst (Set jsonLite syncDB readOnlyFS ''a'' 1)
          = Return (Some (Join ErrSync (External ''permission denied'')))
        \<and> entries (data (fst (snd (Set jsonLite syncDB readOnlyFS ''a'' 1)))) ''a'' = Some (Raw ''1'')"
    by blast
  then have a: "fst (Set jsonLite syncDB readOnlyFS ''a'' 1)
          = Return (Some (Join ErrSync (External ''permission denied'')))"
    and b: "entries (data (fst (snd (Set jsonLite syncDB readOnlyFS ''a'' 1)))) ''a''
          = Some (Raw ''1'')"
    by blast+
  have n: "data nilDB = NilMap" by (simp add: nilDB_def)
  note N = failed_sync_keeps_mutation
         [where db = nilDB and fs = nullFS and k = "''a''" and raw = "Raw ''1''" and c = jsonLite,
          THEN conjunct2, THEN conjunct2, THEN conjunct2, THEN conjunct2, THEN conjunct1,
          rule_format]
  from N n have p: "SetRaw jsonLite nilDB nullFS ''a'' (Raw ''1'')
       = (Panic ''assignment to entry in nil map'', nilDB, nullFS)" .
  from syncDB_simps(3) lite_marshal_1 wf a b s2 f n p show ?thesis by (intro conjI)
qed


text \<open>
  C9. \<open>Iter\<close> stops at the first error of the visitor. Let \<open>order\<close> list the entries
  of the map in the order of this run. \<open>Iter\<close> returns the store as it was and
  nothing else: the second component of the model's result is the state of the
  visitor, and there is no error in it. A visitor that records its calls records
  \<open>visited fn order s\<close>; this list is a prefix of \<open>order\<close>, so the visitor is called on
  entries of the map only. If the visitor returns no error on the entries \<open>pre\<close> and
  an error on the next entry \<open>(k, v)\<close>, the entries visited are \<open>pre\<close> and \<open>(k, v)\<close>:
  none of the entries after \<open>(k, v)\<close> is visited. If it returns no error at all, every
  entry is visited.
\<close>

theorem Iter_stops_on_error:
  assumes ord: "rangeOrder (data db) order"
  shows "snd (Iter db order fn s) = db
   \<and> fst (Iter db order (logging fn) (s, [])) = (fst (Iter db order fn s), visited fn order s)
   \<and> (\<exists>n. visited fn order s = take n order)
   \<and> set (visited fn order s) \<subseteq> Map.graph (entries (data db))
   \<and> (\<forall>pre k v post s1 e s2.
        order = pre @ (k, v) # post \<and> runOK fn pre s = Some s1 \<and> fn k v s1 = (Some e, s2) \<longrightarrow>
        fst (Iter db order fn s) = s2 \<and> visited fn order s = pre @ [(k, v)]
        \<and> set post \<inter> set (visited fn order s) = {})
   \<and> (\<forall>s'. runOK fn order s = Some s' \<longrightarrow>
        fst (Iter db order fn s) = s' \<and> visited fn order s = order)"
proof -
  from rangeOrder_graph [OF ord] have g: "set order = Map.graph (entries (data db))" and d: "distinct order"
    by simp_all
  from visited_prefix [of fn order s]
  obtain n where n: "visited fn order s = take n order" ..
  have sub: "set (visited fn order s) \<subseteq> Map.graph (entries (data db))"
    using g n set_take_subset [of n order] by simp
  have stop: "fst (Iter db order fn s) = s2 \<and> visited fn order s = pre @ [(k, v)]
        \<and> set post \<inter> set (visited fn order s) = {}"
    if h: "order = pre @ (k, v) # post \<and> runOK fn pre s = Some s1 \<and> fn k v s1 = (Some e, s2)"
    for pre k v post s1 e s2
  proof -
    from h runOK_append_error [of fn pre s s1 k v e s2 post]
    have r: "iterLoop fn order s = s2" "visited fn order s = pre @ [(k, v)]" by simp_all
    from d h have "set post \<inter> set (pre @ [(k, v)]) = {}" by auto
    with r show ?thesis by (simp add: Iter_def)
  qed
  have all: "fst (Iter db order fn s) = s' \<and> visited fn order s = order"
    if "runOK fn order s = Some s'" for s'
    using runOK_all [OF that] by (simp add: Iter_def)
  show ?thesis
    using n sub stop all by (simp add: Iter_def iterLoop_logging) blast
qed

theorem Iter_stops_on_error_witness:
  "rangeOrder (data (noSyncDB\<lparr>data := GoMap [''a'' \<mapsto> Raw ''1'', ''b'' \<mapsto> Raw ''2'']\<rparr>))
     [(''b'', Raw ''2''), (''a'', Raw ''1'')]
   \<and> Iter (noSyncDB\<lparr>data := GoMap [''a'' \<mapsto> Raw ''1'', ''b'' \<mapsto> Raw ''2'']\<rparr>)
        [(''a'', Raw ''1''), (''b'', Raw ''2'')] stopAtA 0
       = (1, noSyncDB\<lparr>data := GoMap [''a'' \<mapsto> Raw ''1'', ''b'' \<mapsto> Raw ''2'']\<rparr>)
   \<and> visited stopAtA [(''a'', Raw ''1''), (''b'', Raw ''2'')] 0 = [(''a'', Raw ''1'')]
   \<and> visited stopAtA [(''b'', Raw ''2''), (''a'', Raw ''1'')] 0
       = [(''b'', Raw ''2''), (''a'', Raw ''1'')]"
proof -
  let ?db = "noSyncDB\<lparr>data := GoMap [''a'' \<mapsto> Raw ''1'', ''b'' \<mapsto> Raw ''2'']\<rparr>"
  have o1: "rangeOrder (data ?db) [(''a'', Raw ''1''), (''b'', Raw ''2'')]"
    by (auto simp: rangeOrder_def)
  have o2: "rangeOrder (data ?db) [(''b'', Raw ''2''), (''a'', Raw ''1'')]"
    by (auto simp: rangeOrder_def)
  have r: "[(''a'', Raw ''1''), (''b'', Raw ''2'')] = [] @ (''a'', Raw ''1'') # [(''b'', Raw ''2'')]
           \<and> runOK stopAtA [] 0 = Some 0
           \<and> stopAtA ''a'' (Raw ''1'') 0 = (Some (External ''stop''), 1)"
    by (simp add: stopAtA_def)
  note T = Iter_stops_on_error [OF o1, where fn = stopAtA and s = 0]
  from T have u: "snd (Iter ?db [(''a'', Raw ''1''), (''b'', Raw ''2'')] stopAtA 0) = ?db"
    by (rule conjunct1)
  from T [THEN conjunct2, THEN conjunct2, THEN conjunct2, THEN conjunct2, THEN conjunct1,
          rule_format, OF r]
  have "fst (Iter ?db [(''a'', Raw ''1''), (''b'', Raw ''2'')] stopAtA 0) = 1"
    and v1: "visited stopAtA [(''a'', Raw ''1''), (''b'', Raw ''2'')] 0 = [] @ [(''a'', Raw ''1'')]"
    by blast+
  with u have i: "Iter ?db [(''a'', Raw ''1''), (''b'', Raw ''2'')] stopAtA 0 = (1, ?db)"
    by (simp add: prod_eq_iff del: One_nat_def)
  have v2: "visited stopAtA [(''b'', Raw ''2''), (''a'', Raw ''1'')] 0
              = [(''b'', Raw ''2''), (''a'', Raw ''1'')]"
    by (simp add: stopAtA_def)
  from v1 have v1': "visited stopAtA [(''a'', Raw ''1''), (''b'', Raw ''2'')] 0 = [(''a'', Raw ''1'')]"
    by simp
  from o2 i v1' v2 show ?thesis by (intro conjI)
qed












text \<open>
  C8, at a file that holds one vertical tab. \<^verbatim>\<open>strings.TrimSpace\<close> counts the vertical
  tab as white space, so \<open>Open\<close> takes the file for blank, decodes \<^verbatim>\<open>{}\<close> and
  returns a store with an empty map. \<^verbatim>\<open>file.Write\<close> writes the two bytes at the offset
  where \<^verbatim>\<open>io.ReadAll\<close> stopped, the end of the file, so the file then holds the
  vertical tab followed by \<^verbatim>\<open>{}\<close>. JSON does not allow a vertical tab as white space:
  the codec refuses this content, and the next \<open>Open\<close> on the path fails.
\<close>

theorem Open_vertical_tab:
  "TrimSpace [CHR 0x0B] = []
   \<and> Open jsonLite vtFS ''/db.json'' [] = (Inr noSyncDB, vtFS')
   \<and> files vtFS' ''/db.json'' = Some [CHR 0x0B, CHR ''{'', CHR ''}'']
   \<and> unmarshalMap jsonLite [CHR 0x0B, CHR ''{'', CHR ''}''] = Inl ''invalid document''
   \<and> Open jsonLite vtFS' ''/db.json'' [] = (Inl (Errorf ''db content is not valid JSON'' None), vtFS')"
proof -
  have 1: "Open jsonLite vtFS ''/db.json'' [] = (Inr noSyncDB, vtFS')"
    using Open_blank [of vtFS "''/db.json''" jsonLite "GoMap Map.empty" "[]"]
    by (simp add: vtFS_def vtFS'_def emptyFS_def contents_def TrimSpace_vt
        lite_unmarshalMap_empty noSyncDB_def)
  have 2: "unmarshalMap jsonLite [CHR 0x0B, CHR ''{'', CHR ''}''] = Inl ''invalid document''"
    by (simp add: lite_defs)
  have 3: "Open jsonLite vtFS' ''/db.json'' [] = (Inl (Errorf ''db content is not valid JSON'' None), vtFS')"
    using Open_nonblank [of vtFS' "''/db.json''" "[CHR 0x0B, CHR ''{'', CHR ''}'']" jsonLite "[]"]
    by (simp add: vtFS'_def emptyFS_def TrimSpace_vt_doc 2)
  have 4: "files vtFS' ''/db.json'' = Some [CHR 0x0B, CHR ''{'', CHR ''}'']"
    by (simp add: vtFS'_def)
  from TrimSpace_vt 1 4 2 3 show ?thesis by (intro conjI)
qed


text \<open>
  The bootstrap of \<open>Open\<close>, in general. When the file is absent, empty or blank for
  \<^verbatim>\<open>strings.TrimSpace\<close>, no system call fails and the codec reads \<^verbatim>\<open>{}\<close> as the empty
  map, \<open>Open\<close> returns a store with the empty map and leaves the file holding what it
  held, followed by \<^verbatim>\<open>{}\<close>.
\<close>

theorem Open_bootstrap:
  assumes "openFault fs (canon fs p) = None" and "absFault fs p = None"
    and "readFault fs (canon fs p) = None" and "writeFault fs (canon fs p) = None"
    and "TrimSpace (contents fs (canon fs p)) = []"
    and "unmarshalMap c ''{}'' = Inr (GoMap Map.empty)"
  shows "Open c fs p os =
           (Inr \<lparr>opts = os, path = canon fs p, data = GoMap Map.empty\<rparr>,
            fs\<lparr>files := (files fs)(canon fs p \<mapsto> contents fs (canon fs p) @ ''{}'')\<rparr>)"
  using assms by (rule Open_blank)

theorem Open_bootstrap_witness:
  "TrimSpace (contents emptyFS (canon emptyFS ''/db.json'')) = []
   \<and> unmarshalMap jsonLite ''{}'' = Inr (GoMap Map.empty)
   \<and> Open jsonLite emptyFS ''/db.json'' [] = (Inr noSyncDB, bootFS)"
proof -
  have b: "TrimSpace (contents emptyFS (canon emptyFS ''/db.json'')) = []"
    by (simp add: emptyFS_def contents_def TrimSpace_Nil)
  have f: "openFault emptyFS (canon emptyFS ''/db.json'') = None" "absFault emptyFS ''/db.json'' = None"
    "readFault emptyFS (canon emptyFS ''/db.json'') = None"
    "writeFault emptyFS (canon emptyFS ''/db.json'') = None"
    by (simp_all add: emptyFS_def)
  from Open_bootstrap [OF f b lite_unmarshalMap_empty, where os = "[]"]
  have "Open jsonLite emptyFS ''/db.json'' [] = (Inr noSyncDB, bootFS)"
    by (simp add: emptyFS_def bootFS_def contents_def noSyncDB_def)
  with b lite_unmarshalMap_empty show ?thesis by (intro conjI)
qed


text \<open>
  The nil map. When \<open>Open\<close> returns a store whose map is nil, as it does on a file
  that holds \<^verbatim>\<open>null\<close>, \<open>Set\<close> of an encodable value and \<open>SetRaw\<close> panic on the
  assignment and leave the store and the file system as they were; \<open>Get\<close> returns
  \<open>ErrNotFound\<close> and \<open>Delete\<close> leaves the store as it was.
\<close>

theorem nil_map_panics:
  assumes "Open c fs p os = (Inr db, fs')" and "data db = NilMap"
  shows "(\<forall>v raw. marshal c v = Inr raw \<longrightarrow>
            Set c db fs' k v = (Panic ''assignment to entry in nil map'', db, fs'))
         \<and> SetRaw c db fs' k r = (Panic ''assignment to entry in nil map'', db, fs')
         \<and> Get c db k out = (Some ErrNotFound, out, db)
         \<and> fst (snd (Delete c db fs' k)) = db"
  using assms(2) by (simp add: Set_nil SetRaw_nil Get_def Delete_eq)

theorem nil_map_panics_witness:
  "Open jsonLite nullFS ''/db.json'' [] = (Inr nilDB, nullFS) \<and> data nilDB = NilMap
   \<and> marshal jsonLite 1 = Inr (Raw ''1'')
   \<and> Set jsonLite nilDB nullFS ''a'' 1 = (Panic ''assignment to entry in nil map'', nilDB, nullFS)
   \<and> SetRaw jsonLite nilDB nullFS ''a'' (Raw ''1'')
       = (Panic ''assignment to entry in nil map'', nilDB, nullFS)"
proof -
  have n: "data nilDB = NilMap" by (simp add: nilDB_def)
  note T = nil_map_panics [OF Open_nullFS n, where k = "''a''" and r = "Raw ''1''" and out = 0]
  from T lite_marshal_1
  have "Set jsonLite nilDB nullFS ''a'' 1 = (Panic ''assignment to entry in nil map'', nilDB, nullFS)"
    by blast
  moreover from T
  have "SetRaw jsonLite nilDB nullFS ''a'' (Raw ''1'')
       = (Panic ''assignment to entry in nil map'', nilDB, nullFS)"
    by blast
  ultimately show ?thesis using Open_nullFS n lite_marshal_1 by (intro conjI)
qed

end
